theory Spec2Isabelle
  imports Complex_Main
begin

section \<open>The ASE calculator of s-dftd3 (python/dftd3/ase.py)\<close>

text \<open>
  The module adapts the native dispersion engine to the calculator interface of ASE.
  Everything the module calls but does not define is a parameter of the model: the
  engine (the constructor of the dispersion model, its \<open>update\<close> and
  \<open>get_dispersion\<close>, the constructors of the damping parameters), the unit
  constants of \<open>ase.units\<close> and the cell volume of the structure. Every one of
  these calls may raise, so each returns a sum with the exception on the left.

  Numbers are reals: the arrays of the source hold floating-point numbers, and the
  model keeps the order of the operations of the source, so every equation below is an
  equation between the expressions the source evaluates.
\<close>

subsection \<open>Exceptions\<close>

datatype exn =
    RuntimeError
  | InputError
  | CalculationFailed
  | KeyError
  | AttributeError
  | ValueError
  | TypeError
  | OtherError string

text \<open>
  What \<open>except RuntimeError\<close> catches: the class itself and its subclasses. The two
  calculator errors of ASE derive from \<open>CalculatorError\<close>, a subclass of
  \<open>RuntimeError\<close>.
\<close>

fun is_RuntimeError :: "exn \<Rightarrow> bool" where
  "is_RuntimeError RuntimeError = True"
| "is_RuntimeError InputError = True"
| "is_RuntimeError CalculationFailed = True"
| "is_RuntimeError _ = False"

subsection \<open>Data\<close>

type_synonym vec3 = "real \<times> real \<times> real"
type_synonym mat3 = "vec3 \<times> vec3 \<times> vec3"

text \<open>A keyword argument value: a number, a string or \<open>None\<close>.\<close>

datatype kwval = Num real | Str string | PyNone

text \<open>A dict with string keys, in insertion order.\<close>

type_synonym kwargs = "(string \<times> kwval) list"

record Atoms =
  numbers :: "int list"
  positions :: "vec3 list"
  cell :: mat3
  pbc :: "bool \<times> bool \<times> bool"

text \<open>The dict returned by \<open>get_dispersion(param, grad=True)\<close>.\<close>

record dispersion_result =
  energy :: real
  gradient :: "vec3 list"
  virial :: mat3

text \<open>The values stored in \<open>self.results\<close>: a float, an N x 3 array, a flat array.\<close>

datatype pyval = Scalar real | Vecs "vec3 list" | Arr "real list"

text \<open>\<open>default_parameters\<close>: the four keys of \<open>self.parameters\<close>.\<close>

record dftd3_parameters =
  "method" :: "string option"
  damping :: "string option"
  params_tweaks :: kwargs
  cache_api :: bool

definition default_parameters :: dftd3_parameters where
  "default_parameters =
     \<lparr>method = None, damping = None, params_tweaks = [], cache_api = True\<rparr>"

text \<open>The calculator object: the attributes of the ASE base class and \<open>_disp\<close>.\<close>

record 'h DFTD3 =
  parameters :: dftd3_parameters
  atoms :: "Atoms option"
  results :: "string \<rightharpoonup> pyval"
  disp :: "'h option"

text \<open>The classes the dict \<open>_damping_param\<close> maps the names to.\<close>

datatype damping_class =
    RationalDampingParam
  | ZeroDampingParam
  | ModifiedRationalDampingParam
  | ModifiedZeroDampingParam
  | OptimizedPowerDampingParam

text \<open>
  The collaborators of the module: \<open>'h\<close> is the native model object, \<open>'p\<close> the
  damping parameter object. \<open>update\<close> changes the model in place; here it returns
  the changed model.
\<close>

record ('h, 'p) api =
  Hartree :: real
  Bohr :: real
  DispersionModel :: "int list \<Rightarrow> vec3 list \<Rightarrow> mat3 \<Rightarrow> bool \<times> bool \<times> bool \<Rightarrow> exn + 'h"
  update :: "'h \<Rightarrow> vec3 list \<Rightarrow> mat3 \<Rightarrow> exn + 'h"
  get_dispersion :: "'h \<Rightarrow> 'p \<Rightarrow> exn + dispersion_result"
  DampingParam :: "damping_class \<Rightarrow> kwargs \<Rightarrow> exn + 'p"
  get_volume :: "Atoms \<Rightarrow> exn + real"

subsection \<open>Array arithmetic\<close>

definition vec_map :: "(real \<Rightarrow> real) \<Rightarrow> vec3 \<Rightarrow> vec3" where
  "vec_map f v = (case v of (x, y, z) \<Rightarrow> (f x, f y, f z))"

definition mat_map :: "(real \<Rightarrow> real) \<Rightarrow> mat3 \<Rightarrow> mat3" where
  "mat_map f m = (case m of (a, b, c) \<Rightarrow> (vec_map f a, vec_map f b, vec_map f c))"

text \<open>\<open>.flat\<close>: the nine entries of a 3 x 3 array, row by row.\<close>

definition flat :: "mat3 \<Rightarrow> real list" where
  "flat m = (case m of ((a, b, c), (d, e, f), (g, h, i)) \<Rightarrow> [a, b, c, d, e, f, g, h, i])"

text \<open>\<open>m.flat[idx]\<close> for a list of indices, all below nine here.\<close>

definition flat_take :: "mat3 \<Rightarrow> nat list \<Rightarrow> real list" where
  "flat_take m idx = map (\<lambda>i. flat m ! i) idx"

text \<open>\<open>pbc.any()\<close>\<close>

definition pbc_any :: "bool \<times> bool \<times> bool \<Rightarrow> bool" where
  "pbc_any p = (case p of (a, b, c) \<Rightarrow> a \<or> b \<or> c)"

subsection \<open>The base class \<open>ase.calculators.calculator.Calculator\<close>\<close>

text \<open>
  The three methods of the base class that the module calls. They belong to ASE:
  \<open>reset\<close> clears the stored structure and the results, \<open>calculate\<close> stores a
  copy of the structure it is given (it also creates the working directory, which is
  left out here), \<open>set\<close> stores every keyword whose value differs from the stored
  one and returns the keywords it stored. None of them knows the attribute \<open>_disp\<close>.
\<close>

definition Calculator_reset :: "'h DFTD3 \<Rightarrow> 'h DFTD3" where
  "Calculator_reset s = s\<lparr>atoms := None, results := Map.empty\<rparr>"

definition Calculator_calculate ::
  "Atoms option \<Rightarrow> string list \<Rightarrow> string list \<Rightarrow> 'h DFTD3 \<Rightarrow> 'h DFTD3" where
  "Calculator_calculate atoms_arg properties system_changes s =
     (case atoms_arg of None \<Rightarrow> s | Some a \<Rightarrow> s\<lparr>atoms := Some a\<rparr>)"

datatype keyword =
    Kw_method "string option"
  | Kw_damping "string option"
  | Kw_params_tweaks kwargs
  | Kw_cache_api bool

fun differs :: "keyword \<Rightarrow> dftd3_parameters \<Rightarrow> bool" where
  "differs (Kw_method v) p = (v \<noteq> method p)"
| "differs (Kw_damping v) p = (v \<noteq> damping p)"
| "differs (Kw_params_tweaks v) p = (v \<noteq> params_tweaks p)"
| "differs (Kw_cache_api v) p = (v \<noteq> cache_api p)"

fun store :: "keyword \<Rightarrow> dftd3_parameters \<Rightarrow> dftd3_parameters" where
  "store (Kw_method v) p = p\<lparr>method := v\<rparr>"
| "store (Kw_damping v) p = p\<lparr>damping := v\<rparr>"
| "store (Kw_params_tweaks v) p = p\<lparr>params_tweaks := v\<rparr>"
| "store (Kw_cache_api v) p = p\<lparr>cache_api := v\<rparr>"

fun Calculator_set :: "keyword list \<Rightarrow> 'h DFTD3 \<Rightarrow> keyword list \<times> 'h DFTD3" where
  "Calculator_set [] s = ([], s)"
| "Calculator_set (k # ks) s =
     (if differs k (parameters s)
      then (case Calculator_set ks (s\<lparr>parameters := store k (parameters s)\<rparr>) of
              (changed, s') \<Rightarrow> (k # changed, s'))
      else Calculator_set ks s)"

subsection \<open>The class \<open>DFTD3\<close>\<close>

text \<open>\<open>_damping_param\<close>\<close>

definition damping_param :: "(string \<times> damping_class) list" where
  "damping_param =
     [(''d3bj'', RationalDampingParam),
      (''d3zero'', ZeroDampingParam),
      (''d3bjm'', ModifiedRationalDampingParam),
      (''d3mbj'', ModifiedRationalDampingParam),
      (''d3zerom'', ModifiedZeroDampingParam),
      (''d3mzero'', ModifiedZeroDampingParam),
      (''d3op'', OptimizedPowerDampingParam)]"

text \<open>\<open>_damping_param[key]\<close>: \<open>None\<close> is a key the dict does not hold.\<close>

definition damping_param_getitem :: "string option \<Rightarrow> exn + damping_class" where
  "damping_param_getitem key =
     (case key of
        None \<Rightarrow> Inl KeyError
      | Some name \<Rightarrow>
          (case map_of damping_param name of None \<Rightarrow> Inl KeyError | Some c \<Rightarrow> Inr c))"

text \<open>\<open>reset\<close>\<close>

definition reset :: "'h DFTD3 \<Rightarrow> 'h DFTD3" where
  "reset s =
     (let s1 = Calculator_reset s
      in if \<not> cache_api (parameters s1) then s1\<lparr>disp := None\<rparr> else s1)"

text \<open>\<open>set\<close>: the method named \<open>set\<close> of the class.\<close>

definition set_parameters :: "keyword list \<Rightarrow> 'h DFTD3 \<Rightarrow> keyword list \<times> 'h DFTD3" where
  "set_parameters kws s =
     (case Calculator_set kws s of
        (changed_parameters, s1) \<Rightarrow>
          if changed_parameters \<noteq> [] then (changed_parameters, reset s1)
          else (changed_parameters, s1))"

text \<open>
  \<open>_check_api_calculator\<close>. \<open>list.remove\<close> deletes the first occurrence, as
  \<open>remove1\<close> does. Reading \<open>self.atoms.cell\<close> of a calculator without a structure
  raises \<open>AttributeError\<close>, which the handler does not catch.
\<close>

definition check_api_calculator ::
  "('h, 'p) api \<Rightarrow> string list \<Rightarrow> 'h DFTD3 \<Rightarrow> (exn + unit) \<times> 'h DFTD3" where
  "check_api_calculator api system_changes s =
     (let r0 = system_changes;
          r1 = (if ''positions'' \<in> set r0 then remove1 ''positions'' r0 else r0);
          r2 = (if ''cell'' \<in> set r1 then remove1 ''cell'' r1 else r1)
      in if r2 \<noteq> [] then (Inr (), s\<lparr>disp := None\<rparr>)
         else if system_changes \<noteq> [] then
           (case disp s of
              None \<Rightarrow> (Inr (), s)
            | Some h \<Rightarrow>
                (case atoms s of
                   None \<Rightarrow> (Inl AttributeError, s)
                 | Some a \<Rightarrow>
                     (case update api h
                             (map (vec_map (\<lambda>x. x / Bohr api)) (positions a))
                             (mat_map (\<lambda>x. x / Bohr api) (cell a)) of
                        Inr h' \<Rightarrow> (Inr (), s\<lparr>disp := Some h'\<rparr>)
                      | Inl e \<Rightarrow>
                          if is_RuntimeError e then (Inr (), s\<lparr>disp := None\<rparr>)
                          else (Inl e, s))))
         else (Inr (), s))"

text \<open>\<open>_create_api_calculator\<close>\<close>

definition create_api_calculator :: "('h, 'p) api \<Rightarrow> 'h DFTD3 \<Rightarrow> exn + 'h" where
  "create_api_calculator api s =
     (case atoms s of
        None \<Rightarrow> Inl AttributeError
      | Some a \<Rightarrow>
          (case DispersionModel api (numbers a)
                  (map (vec_map (\<lambda>x. x / Bohr api)) (positions a))
                  (mat_map (\<lambda>x. x / Bohr api) (cell a))
                  (pbc a) of
             Inr h \<Rightarrow> Inr h
           | Inl e \<Rightarrow> if is_RuntimeError e then Inl InputError else Inl e))"

text \<open>\<open>_create_damping_param\<close>\<close>

definition create_damping_param :: "('h, 'p) api \<Rightarrow> 'h DFTD3 \<Rightarrow> exn + 'p" where
  "create_damping_param api s =
     (let tweaks =
            (if params_tweaks (parameters s) \<noteq> [] then params_tweaks (parameters s)
             else [(''method'',
                    (case method (parameters s) of None \<Rightarrow> PyNone | Some m \<Rightarrow> Str m))])
      in case damping_param_getitem (damping (parameters s)) of
           Inl e \<Rightarrow> if is_RuntimeError e then Inl InputError else Inl e
         | Inr c \<Rightarrow>
             (case DampingParam api c tweaks of
                Inr dpar \<Rightarrow> Inr dpar
              | Inl e \<Rightarrow> if is_RuntimeError e then Inl InputError else Inl e))"

text \<open>
  \<open>calculate\<close>, in the order of its statements. The state is returned with the
  exception too: what the call has assigned before it raises stays assigned.

  The statement \<open>if self._disp is None: self._disp = self._create_api_calculator()\<close>;
  its value is the model the evaluation then uses.
\<close>

definition ensure_api_calculator ::
  "('h, 'p) api \<Rightarrow> 'h DFTD3 \<Rightarrow> (exn + 'h) \<times> 'h DFTD3" where
  "ensure_api_calculator api s =
     (case disp s of
        Some h \<Rightarrow> (Inr h, s)
      | None \<Rightarrow>
          (case create_api_calculator api s of
             Inl e \<Rightarrow> (Inl e, s)
           | Inr h \<Rightarrow> (Inr h, s\<lparr>disp := Some h\<rparr>)))"

text \<open>The assignments to \<open>self.results\<close> that end \<open>calculate\<close>.\<close>

definition store_results ::
  "('h, 'p) api \<Rightarrow> dispersion_result \<Rightarrow> 'h DFTD3 \<Rightarrow> (exn + unit) \<times> 'h DFTD3" where
  "store_results api res s =
     (let e = Scalar (energy res * Hartree api);
          s1 = s\<lparr>results := (results s)(''energy'' \<mapsto> e)\<rparr>;
          s2 = s1\<lparr>results := (results s1)(''free_energy'' \<mapsto> e)\<rparr>;
          s3 = s2\<lparr>results := (results s2)(''forces'' \<mapsto>
                 Vecs (map (vec_map (\<lambda>g. - g * Hartree api / Bohr api)) (gradient res)))\<rparr>
      in case atoms s3 of
           None \<Rightarrow> (Inl AttributeError, s3)
         | Some a \<Rightarrow>
             if pbc_any (pbc a) then
               (case get_volume api a of
                  Inl e \<Rightarrow> (Inl e, s3)
                | Inr vol \<Rightarrow>
                    (let stress = mat_map (\<lambda>x. x * Hartree api / vol) (virial res)
                     in (Inr (),
                         s3\<lparr>results := (results s3)(''stress'' \<mapsto>
                               Arr (flat_take stress [0, 4, 8, 5, 2, 1]))\<rparr>)))
             else (Inr (), s3))"

definition calculate ::
  "('h, 'p) api \<Rightarrow> Atoms option \<Rightarrow> string list \<Rightarrow> string list \<Rightarrow> 'h DFTD3
     \<Rightarrow> (exn + unit) \<times> 'h DFTD3" where
  "calculate api atoms_arg properties system_changes s =
     (let props = (if properties = [] then [''energy''] else properties);
          s1 = Calculator_calculate atoms_arg props system_changes s
      in case check_api_calculator api system_changes s1 of
           (Inl e, s2) \<Rightarrow> (Inl e, s2)
         | (Inr _, s2) \<Rightarrow>
             (case ensure_api_calculator api s2 of
                (Inl e, s3) \<Rightarrow> (Inl e, s3)
              | (Inr h, s3) \<Rightarrow>
                  (case create_damping_param api s3 of
                     Inl e \<Rightarrow> (Inl e, s3)
                   | Inr dpar \<Rightarrow>
                       (case get_dispersion api h dpar of
                          Inl e \<Rightarrow>
                            (Inl (if is_RuntimeError e then CalculationFailed else e), s3)
                        | Inr res \<Rightarrow> store_results api res s3))))"

subsection \<open>A stand-in engine and sample calculators\<close>

text \<open>
  A small engine for the closed examples below. Its model object is the geometry it was
  given, its damping parameter object the class and the keyword arguments. It refuses a
  structure without atoms, an update that changes the number of atoms, and a damping
  parameter built from neither a method nor tweaks. The volume follows
  \<open>Atoms.get_volume\<close> of ASE: undefined unless all three cell vectors are non-zero,
  the absolute value of the determinant of the cell otherwise.
\<close>

definition det3 :: "mat3 \<Rightarrow> real" where
  "det3 m = (case m of ((a, b, c), (d, e, f), (g, h, i)) \<Rightarrow>
     a * (e * i - f * h) - b * (d * i - f * g) + c * (d * h - e * g))"

definition test_api :: "(vec3 list \<times> mat3, damping_class \<times> kwargs) api" where
  "test_api =
     \<lparr>Hartree = 27, Bohr = 1 / 2,
      DispersionModel = (\<lambda>nums pos cl per.
         if nums = [] then Inl RuntimeError else Inr (pos, cl)),
      update = (\<lambda>h pos cl.
         if length pos \<noteq> length (fst h) then Inl RuntimeError else Inr (pos, cl)),
      get_dispersion = (\<lambda>h dpar.
         if fst dpar = OptimizedPowerDampingParam then Inl RuntimeError
         else Inr \<lparr>energy = - 1, gradient = map (\<lambda>p. (1, 2, 3)) (fst h),
                   virial = ((1, 2, 3), (4, 5, 6), (7, 8, 9))\<rparr>),
      DampingParam = (\<lambda>c kw.
         if kw = [(''method'', PyNone)] then Inl RuntimeError else Inr (c, kw)),
      get_volume = (\<lambda>a.
         case cell a of (u, v, w) \<Rightarrow>
           if u = (0, 0, 0) \<or> v = (0, 0, 0) \<or> w = (0, 0, 0) then Inl ValueError
           else Inr \<bar>det3 (cell a)\<bar>)\<rparr>"

text \<open>One atom in a box of edge 2, periodic along the first axis, and the same atom free.\<close>

definition box_atoms :: Atoms where
  "box_atoms =
     \<lparr>numbers = [6], positions = [(1, 1, 1)],
      cell = ((2, 0, 0), (0, 2, 0), (0, 0, 2)), pbc = (True, False, False)\<rparr>"

definition free_atoms :: Atoms where
  "free_atoms = box_atoms\<lparr>pbc := (False, False, False)\<rparr>"

text \<open>\<open>DFTD3(method="pbe", damping="d3bj")\<close> before its first calculation.\<close>

definition fresh :: "(vec3 list \<times> mat3) DFTD3" where
  "fresh =
     \<lparr>parameters = default_parameters\<lparr>method := Some ''pbe'', damping := Some ''d3bj''\<rparr>,
      atoms = None, results = Map.empty, disp = None\<rparr>"

text \<open>The same calculator holding a model for the box.\<close>

definition loaded :: "(vec3 list \<times> mat3) DFTD3" where
  "loaded = fresh\<lparr>atoms := Some box_atoms,
                    disp := Some ([(2, 2, 2)], ((4, 0, 0), (0, 4, 0), (0, 0, 4)))\<rparr>"

text \<open>The calculator created with \<open>cache_api=False\<close>.\<close>

definition nocache :: "(vec3 list \<times> mat3) DFTD3" where
  "nocache = fresh\<lparr>parameters := (parameters fresh)\<lparr>cache_api := False\<rparr>\<rparr>"

text \<open>Two atoms in the same box: the model of \<open>loaded\<close> cannot be updated to it.\<close>

definition pair_atoms :: Atoms where
  "pair_atoms = box_atoms\<lparr>numbers := [6, 8], positions := [(1, 1, 1), (1 / 2, 1 / 2, 1 / 2)]\<rparr>"

text \<open>
  The calculator \<open>fresh\<close> after its first calculation, on the box and on the free atom
  (see \<open>box_run\<close> and \<open>free_run\<close> below).
\<close>

definition box_done :: "(vec3 list \<times> mat3) DFTD3" where
  "box_done =
     fresh\<lparr>atoms := Some box_atoms,
           results := [''energy'' \<mapsto> Scalar (- 27), ''free_energy'' \<mapsto> Scalar (- 27),
                       ''forces'' \<mapsto> Vecs [(- 54, - 108, - 162)],
                       ''stress'' \<mapsto> Arr [27 / 8, 135 / 8, 243 / 8, 81 / 4, 81 / 8, 27 / 4]],
           disp := Some ([(2, 2, 2)], ((4, 0, 0), (0, 4, 0), (0, 0, 4)))\<rparr>"

definition free_done :: "(vec3 list \<times> mat3) DFTD3" where
  "free_done =
     fresh\<lparr>atoms := Some free_atoms,
           results := [''energy'' \<mapsto> Scalar (- 27), ''free_energy'' \<mapsto> Scalar (- 27),
                       ''forces'' \<mapsto> Vecs [(- 54, - 108, - 162)]],
           disp := Some ([(2, 2, 2)], ((4, 0, 0), (0, 4, 0), (0, 0, 4)))\<rparr>"

text \<open>\<open>all_changes\<close> of ASE.\<close>

definition all_changes :: "string list" where
  "all_changes =
     [''positions'', ''numbers'', ''cell'', ''pbc'', ''initial_charges'', ''initial_magmoms'']"

section \<open>Properties\<close>

subsection \<open>Evaluation of the examples\<close>

lemmas test_defs = test_api_def box_atoms_def free_atoms_def fresh_def loaded_def all_changes_def
  default_parameters_def det3_def nocache_def pair_atoms_def

lemmas run_defs = calculate_def check_api_calculator_def ensure_api_calculator_def
  create_api_calculator_def create_damping_param_def damping_param_getitem_def damping_param_def
  store_results_def Calculator_calculate_def vec_map_def mat_map_def flat_def flat_take_def
  pbc_any_def Let_def

subsection \<open>What each step reads and writes\<close>

lemma remove_if_present: "(if x \<in> set xs then remove1 x xs else xs) = remove1 x xs"
  by (simp add: remove1_idem)

lemma leftover_nonempty:
  assumes "x \<in> set sc" "x \<noteq> p" "x \<noteq> c"
  shows "remove1 c (remove1 p sc) \<noteq> []"
proof -
  from assms have "x \<in> set (remove1 c (remove1 p sc))" by simp
  then show ?thesis by auto
qed

lemma leftover_empty:
  assumes "distinct sc" "set sc \<subseteq> {p, c}"
  shows "remove1 c (remove1 p sc) = []"
proof -
  from assms have "set (remove1 c (remove1 p sc)) = {}" by auto
  then show ?thesis by simp
qed

lemma create_damping_param_parameters:
  "parameters s' = parameters s \<Longrightarrow> create_damping_param api s' = create_damping_param api s"
  by (simp add: create_damping_param_def Let_def split: sum.splits)

lemma create_api_calculator_atoms:
  "atoms s' = atoms s \<Longrightarrow> create_api_calculator api s' = create_api_calculator api s"
  by (simp add: create_api_calculator_def split: option.splits)

lemma check_frame:
  assumes "check_api_calculator api sc s = (r, s')"
  shows "parameters s' = parameters s \<and> atoms s' = atoms s \<and> results s' = results s"
  using assms
  by (auto simp: check_api_calculator_def Let_def split: if_splits option.splits sum.splits)

lemma check_keeps_None:
  assumes "disp s = None"
  shows "check_api_calculator api sc s = (Inr (), s)"
  using assms
  by (auto simp: check_api_calculator_def Let_def split: if_splits option.splits sum.splits)

lemma Calculator_calculate_frame:
  "parameters (Calculator_calculate arg pr sc s) = parameters s \<and>
   results (Calculator_calculate arg pr sc s) = results s \<and>
   disp (Calculator_calculate arg pr sc s) = disp s \<and>
   atoms (Calculator_calculate arg pr sc s) = (case arg of None \<Rightarrow> atoms s | Some a \<Rightarrow> Some a)"
  by (simp add: Calculator_calculate_def split: option.splits)

lemma ensure_frame:
  assumes "ensure_api_calculator api s = (r, s3)"
  shows "parameters s3 = parameters s \<and> atoms s3 = atoms s \<and> results s3 = results s"
  using assms by (auto simp: ensure_api_calculator_def split: option.splits sum.splits)

lemma ensure_Inr:
  assumes "ensure_api_calculator api s = (Inr h, s3)"
  shows "s3 = s\<lparr>disp := Some h\<rparr> \<and> (disp s = None \<longrightarrow> create_api_calculator api s = Inr h)"
  using assms by (auto simp: ensure_api_calculator_def split: option.splits sum.splits)

lemma store_results_returns:
  assumes "store_results api res s = (Inr u, s')"
  shows "\<exists>a. atoms s' = Some a \<and> atoms s = Some a \<and> disp s' = disp s \<and>
           parameters s' = parameters s \<and>
           results s' ''energy'' = Some (Scalar (energy res * Hartree api)) \<and>
           results s' ''free_energy'' = Some (Scalar (energy res * Hartree api)) \<and>
           results s' ''forces'' =
             Some (Vecs (map (vec_map (\<lambda>g. - g * Hartree api / Bohr api)) (gradient res))) \<and>
           (if pbc_any (pbc a)
            then \<exists>vol. get_volume api a = Inr vol \<and>
                   results s' ''stress'' =
                     Some (Arr (flat_take (mat_map (\<lambda>x. x * Hartree api / vol) (virial res))
                                    [0, 4, 8, 5, 2, 1]))
            else results s' ''stress'' = results s ''stress'')"
proof -
  from assms obtain a where a: "atoms s = Some a"
    by (cases "atoms s") (simp_all add: store_results_def Let_def)
  show ?thesis
  proof (cases "pbc_any (pbc a)")
    case True
    with assms a obtain vol where vol: "get_volume api a = Inr vol"
      by (cases "get_volume api a") (simp_all add: store_results_def Let_def)
    from assms a True vol
    have "s' = s\<lparr>results := (results s)
                 (''energy'' \<mapsto> Scalar (energy res * Hartree api),
                  ''free_energy'' \<mapsto> Scalar (energy res * Hartree api),
                  ''forces'' \<mapsto>
                     Vecs (map (vec_map (\<lambda>g. - g * Hartree api / Bohr api)) (gradient res)),
                  ''stress'' \<mapsto>
                     Arr (flat_take (mat_map (\<lambda>x. x * Hartree api / vol) (virial res))
                                    [0, 4, 8, 5, 2, 1]))\<rparr>"
      by (simp add: store_results_def Let_def)
    with a True vol show ?thesis by simp
  next
    case False
    from assms a False
    have "s' = s\<lparr>results := (results s)
                 (''energy'' \<mapsto> Scalar (energy res * Hartree api),
                  ''free_energy'' \<mapsto> Scalar (energy res * Hartree api),
                  ''forces'' \<mapsto>
                     Vecs (map (vec_map (\<lambda>g. - g * Hartree api / Bohr api)) (gradient res)))\<rparr>"
      by (simp add: store_results_def Let_def)
    with a False show ?thesis by simp
  qed
qed

lemma Calculator_calculate_props:
  "Calculator_calculate arg pr sc s = Calculator_calculate arg pr' sc' s"
  by (simp add: Calculator_calculate_def)

lemma calculate_returns:
  assumes "calculate api arg pr sc s = (Inr u, s')"
  shows "\<exists>a h dpar res.
           atoms s' = Some a \<and> disp s' = Some h \<and> parameters s' = parameters s \<and>
           create_damping_param api s' = Inr dpar \<and> get_dispersion api h dpar = Inr res \<and>
           results s' ''energy'' = Some (Scalar (energy res * Hartree api)) \<and>
           results s' ''free_energy'' = Some (Scalar (energy res * Hartree api)) \<and>
           results s' ''forces'' =
             Some (Vecs (map (vec_map (\<lambda>g. - g * Hartree api / Bohr api)) (gradient res))) \<and>
           (if pbc_any (pbc a)
            then \<exists>vol. get_volume api a = Inr vol \<and>
                   results s' ''stress'' =
                     Some (Arr (flat_take (mat_map (\<lambda>x. x * Hartree api / vol) (virial res))
                                    [0, 4, 8, 5, 2, 1]))
            else results s' ''stress'' = results s ''stress'')"
proof -
  define s1 where "s1 = Calculator_calculate arg (if pr = [] then [''energy''] else pr) sc s"
  obtain r2 s2 where chk: "check_api_calculator api sc s1 = (r2, s2)"
    by (cases "check_api_calculator api sc s1")
  obtain r3 s3 where ens: "ensure_api_calculator api s2 = (r3, s3)"
    by (cases "ensure_api_calculator api s2")
  note run = assms [unfolded calculate_def Let_def, folded s1_def]
  from run chk obtain u2 where r2: "r2 = Inr u2" by (cases r2) simp_all
  from run chk r2 ens obtain h where r3: "r3 = Inr h" by (cases r3) simp_all
  from run chk r2 ens r3 obtain dpar where dpar: "create_damping_param api s3 = Inr dpar"
    by (cases "create_damping_param api s3") simp_all
  from run chk r2 ens r3 dpar obtain res where res: "get_dispersion api h dpar = Inr res"
    by (cases "get_dispersion api h dpar") simp_all
  from run chk r2 ens r3 dpar res have st: "store_results api res s3 = (Inr u, s')" by simp
  have fr1: "parameters s1 = parameters s" "results s1 = results s"
    by (simp_all add: s1_def Calculator_calculate_frame)
  from check_frame [OF chk] fr1
  have fr2: "parameters s2 = parameters s" "results s2 = results s" by simp_all
  from ensure_frame [OF ens] fr2
  have fr3: "parameters s3 = parameters s" "results s3 = results s" by simp_all
  from ens r3 have "ensure_api_calculator api s2 = (Inr h, s3)" by simp
  from ensure_Inr [OF this] have d3: "disp s3 = Some h" by simp
  from store_results_returns [OF st] obtain a where
    a: "atoms s' = Some a" "disp s' = disp s3" "parameters s' = parameters s3"
       "results s' ''energy'' = Some (Scalar (energy res * Hartree api))"
       "results s' ''free_energy'' = Some (Scalar (energy res * Hartree api))"
       "results s' ''forces'' =
             Some (Vecs (map (vec_map (\<lambda>g. - g * Hartree api / Bohr api)) (gradient res)))"
       "if pbc_any (pbc a)
            then \<exists>vol. get_volume api a = Inr vol \<and>
                   results s' ''stress'' =
                     Some (Arr (flat_take (mat_map (\<lambda>x. x * Hartree api / vol) (virial res))
                                    [0, 4, 8, 5, 2, 1]))
            else results s' ''stress'' = results s3 ''stress''"
    by blast
  have "create_damping_param api s' = create_damping_param api s3"
    by (rule create_damping_param_parameters) (simp add: a)
  with dpar have dp: "create_damping_param api s' = Inr dpar" by simp
  from a(7) fr3 have str: "if pbc_any (pbc a)
            then \<exists>vol. get_volume api a = Inr vol \<and>
                   results s' ''stress'' =
                     Some (Arr (flat_take (mat_map (\<lambda>x. x * Hartree api / vol) (virial res))
                                    [0, 4, 8, 5, 2, 1]))
            else results s' ''stress'' = results s ''stress''" by (simp split: if_splits)
  from a(1) a(2) d3 a(3) fr3 dp res a(4) a(5) a(6) str show ?thesis
    by (intro exI [of _ a] exI [of _ h] exI [of _ dpar] exI [of _ res]) simp
qed

lemma calculate_unfold:
  assumes "check_api_calculator api sc (Calculator_calculate arg pr sc s) = (Inr u2, s2)"
      and "ensure_api_calculator api s2 = (Inr h, s3)"
      and "create_damping_param api s3 = Inr dpar"
  shows "calculate api arg pr sc s =
           (case get_dispersion api h dpar of
              Inl e \<Rightarrow> (Inl (if is_RuntimeError e then CalculationFailed else e), s3)
            | Inr res \<Rightarrow> store_results api res s3)"
proof -
  have "Calculator_calculate arg (if pr = [] then [''energy''] else pr) sc s =
        Calculator_calculate arg pr sc s"
    by (rule Calculator_calculate_props)
  with assms show ?thesis by (simp add: calculate_def Let_def)
qed

lemma calculate_stages:
  assumes "calculate api arg pr sc s = (Inr u, s')"
  shows "\<exists>u2 s2 h dpar res.
           check_api_calculator api sc (Calculator_calculate arg pr sc s) = (Inr u2, s2) \<and>
           ensure_api_calculator api s2 = (Inr h, s2\<lparr>disp := Some h\<rparr>) \<and>
           create_damping_param api s2 = Inr dpar \<and>
           get_dispersion api h dpar = Inr res \<and>
           store_results api res (s2\<lparr>disp := Some h\<rparr>) = (Inr u, s')"
proof -
  define s1 where "s1 = Calculator_calculate arg (if pr = [] then [''energy''] else pr) sc s"
  have s1: "Calculator_calculate arg pr sc s = s1"
    unfolding s1_def by (rule Calculator_calculate_props)
  obtain r2 s2 where chk: "check_api_calculator api sc s1 = (r2, s2)"
    by (cases "check_api_calculator api sc s1")
  obtain r3 s3 where ens: "ensure_api_calculator api s2 = (r3, s3)"
    by (cases "ensure_api_calculator api s2")
  note run = assms [unfolded calculate_def Let_def, folded s1_def]
  from run chk obtain u2 where r2: "r2 = Inr u2" by (cases r2) simp_all
  from run chk r2 ens obtain h where r3: "r3 = Inr h" by (cases r3) simp_all
  from run chk r2 ens r3 obtain dpar where dpar: "create_damping_param api s3 = Inr dpar"
    by (cases "create_damping_param api s3") simp_all
  from run chk r2 ens r3 dpar obtain res where res: "get_dispersion api h dpar = Inr res"
    by (cases "get_dispersion api h dpar") simp_all
  from run chk r2 ens r3 dpar res have st: "store_results api res s3 = (Inr u, s')" by simp
  from ens r3 have "ensure_api_calculator api s2 = (Inr h, s3)" by simp
  from ensure_Inr [OF this] have s3: "s3 = s2\<lparr>disp := Some h\<rparr>" by simp
  have "create_damping_param api s3 = create_damping_param api s2"
    by (rule create_damping_param_parameters) (simp add: s3)
  with dpar have dpar2: "create_damping_param api s2 = Inr dpar" by simp
  from chk r2 s1 ens r3 s3 dpar2 res st show ?thesis by auto
qed

lemma Calculator_set_disp: "disp (snd (Calculator_set kws s)) = disp s"
proof (induction kws arbitrary: s)
  case Nil
  show ?case by simp
next
  case (Cons k ks)
  show ?case
  proof (cases "differs k (parameters s)")
    case True
    from Cons.IH [of "s\<lparr>parameters := store k (parameters s)\<rparr>"] True
    show ?thesis by (simp add: case_prod_beta)
  next
    case False
    with Cons.IH [of s] show ?thesis by simp
  qed
qed

subsection \<open>The damping-parameter factory\<close>

text \<open>
  C1. The claim is that a damping name outside the seven names of \<open>_damping_param\<close>
  makes \<open>_create_damping_param\<close> raise \<open>InputError\<close>. The lookup in the dict raises
  \<open>KeyError\<close>, the handler of the method catches \<open>RuntimeError\<close> only, and
  \<open>KeyError\<close> is not one: for every such name, and for the default \<open>None\<close>, the
  method raises \<open>KeyError\<close>.
\<close>

theorem create_damping_param_unknown_name:
  assumes "damping (parameters s) \<notin>
             {Some ''d3bj'', Some ''d3zero'', Some ''d3bjm'', Some ''d3mbj'',
              Some ''d3zerom'', Some ''d3mzero'', Some ''d3op''}"
  shows "create_damping_param api s = Inl KeyError"
proof (cases "damping (parameters s)")
  case None
  then show ?thesis
    by (simp add: create_damping_param_def damping_param_getitem_def)
next
  case (Some name)
  with assms have "map_of damping_param name = None"
    by (simp add: damping_param_def)
  with Some show ?thesis
    by (simp add: create_damping_param_def damping_param_getitem_def)
qed

theorem create_damping_param_unknown_name_witness:
  "create_damping_param test_api
     (fresh\<lparr>parameters := (parameters fresh)\<lparr>damping := Some ''d4''\<rparr>\<rparr>) = Inl KeyError \<and>
   create_damping_param test_api
     (fresh\<lparr>parameters := (parameters fresh)\<lparr>damping := None\<rparr>\<rparr>) = Inl KeyError"
  using create_damping_param_unknown_name
          [of "fresh\<lparr>parameters := (parameters fresh)\<lparr>damping := Some ''d4''\<rparr>\<rparr>" test_api]
        create_damping_param_unknown_name
          [of "fresh\<lparr>parameters := (parameters fresh)\<lparr>damping := None\<rparr>\<rparr>" test_api]
  by simp

text \<open>
  C6. When \<open>params_tweaks\<close> is not empty, the result of \<open>_create_damping_param\<close> does
  not depend on \<open>method\<close>, and it is what the constructor selected by \<open>damping\<close>
  returns for exactly the tweaks as keyword arguments; when \<open>params_tweaks\<close> is empty,
  it is what the constructor returns for the single keyword \<open>method\<close>. In both cases a
  \<open>RuntimeError\<close> of the constructor becomes \<open>InputError\<close>.
\<close>

theorem params_tweaks_precedence:
  "(params_tweaks (parameters s) \<noteq> [] \<longrightarrow>
      (\<forall>m. create_damping_param api (s\<lparr>parameters := (parameters s)\<lparr>method := m\<rparr>\<rparr>) =
           create_damping_param api s) \<and>
      (\<forall>c. damping_param_getitem (damping (parameters s)) = Inr c \<longrightarrow>
           create_damping_param api s =
             (case DampingParam api c (params_tweaks (parameters s)) of
                Inr dpar \<Rightarrow> Inr dpar
              | Inl e \<Rightarrow> if is_RuntimeError e then Inl InputError else Inl e))) \<and>
   (params_tweaks (parameters s) = [] \<longrightarrow>
      (\<forall>c. damping_param_getitem (damping (parameters s)) = Inr c \<longrightarrow>
           create_damping_param api s =
             (case DampingParam api c
                     [(''method'', case method (parameters s) of None \<Rightarrow> PyNone | Some m \<Rightarrow> Str m)] of
                Inr dpar \<Rightarrow> Inr dpar
              | Inl e \<Rightarrow> if is_RuntimeError e then Inl InputError else Inl e)))"
  by (simp add: create_damping_param_def)

theorem params_tweaks_precedence_witness:
  "create_damping_param test_api
     (fresh\<lparr>parameters := (parameters fresh)\<lparr>params_tweaks := [(''s8'', Num 1), (''a2'', Num 4)]\<rparr>\<rparr>) =
     Inr (RationalDampingParam, [(''s8'', Num 1), (''a2'', Num 4)]) \<and>
   create_damping_param test_api
     (fresh\<lparr>parameters := (parameters fresh)
        \<lparr>params_tweaks := [(''s8'', Num 1), (''a2'', Num 4)], method := Some ''tpss''\<rparr>\<rparr>) =
     Inr (RationalDampingParam, [(''s8'', Num 1), (''a2'', Num 4)]) \<and>
   create_damping_param test_api fresh = Inr (RationalDampingParam, [(''method'', Str ''pbe'')])"
  using params_tweaks_precedence
          [of "fresh\<lparr>parameters := (parameters fresh)
                 \<lparr>params_tweaks := [(''s8'', Num 1), (''a2'', Num 4)]\<rparr>\<rparr>" test_api]
        params_tweaks_precedence [of fresh test_api]
  by (simp add: test_defs create_damping_param_def damping_param_getitem_def damping_param_def)

subsection \<open>The model cache\<close>

lemma check_discards:
  assumes "x \<in> set sc" "x \<noteq> ''positions''" "x \<noteq> ''cell''"
  shows "check_api_calculator api sc s = (Inr (), s\<lparr>disp := None\<rparr>)"
proof -
  from assms have "remove1 ''cell'' (remove1 ''positions'' sc) \<noteq> []"
    by (rule leftover_nonempty)
  then show ?thesis
    by (simp add: check_api_calculator_def Let_def remove_if_present)
qed

lemma check_updates:
  assumes "sc \<noteq> []" "remove1 ''cell'' (remove1 ''positions'' sc) = []"
      and "disp s = Some h" "atoms s = Some a"
  shows "check_api_calculator api sc s =
           (case update api h (map (vec_map (\<lambda>x. x / Bohr api)) (positions a))
                   (mat_map (\<lambda>x. x / Bohr api) (cell a)) of
              Inr h' \<Rightarrow> (Inr (), s\<lparr>disp := Some h'\<rparr>)
            | Inl e \<Rightarrow> if is_RuntimeError e then (Inr (), s\<lparr>disp := None\<rparr>) else (Inl e, s))"
  using assms by (simp add: check_api_calculator_def Let_def remove_if_present)

lemma store_results_disp: "disp (snd (store_results api res s)) = disp s"
  by (simp add: store_results_def Let_def split: option.splits sum.splits)

lemma calculate_rebuild_fails:
  assumes "check_api_calculator api sc (Calculator_calculate arg pr sc s) = (Inr u2, s2)"
      and "disp s2 = None"
      and "create_api_calculator api s2 = Inl e"
  shows "calculate api arg pr sc s = (Inl e, s2)"
proof -
  have "Calculator_calculate arg (if pr = [] then [''energy''] else pr) sc s =
        Calculator_calculate arg pr sc s"
    by (rule Calculator_calculate_props)
  moreover from assms(2,3) have "ensure_api_calculator api s2 = (Inl e, s2)"
    by (simp add: ensure_api_calculator_def)
  ultimately show ?thesis using assms(1) by (simp add: calculate_def Let_def)
qed

lemma calculate_rebuild:
  assumes "check_api_calculator api sc (Calculator_calculate arg pr sc s) = (Inr u2, s2)"
      and "disp s2 = None"
      and "create_api_calculator api s2 = Inr h"
  shows "calculate api arg pr sc s =
           (case create_damping_param api s2 of
              Inl e \<Rightarrow> (Inl e, s2\<lparr>disp := Some h\<rparr>)
            | Inr dpar \<Rightarrow>
                (case get_dispersion api h dpar of
                   Inl e \<Rightarrow>
                     (Inl (if is_RuntimeError e then CalculationFailed else e),
                      s2\<lparr>disp := Some h\<rparr>)
                 | Inr res \<Rightarrow> store_results api res (s2\<lparr>disp := Some h\<rparr>)))"
proof -
  from assms(2,3) have ens: "ensure_api_calculator api s2 = (Inr h, s2\<lparr>disp := Some h\<rparr>)"
    by (simp add: ensure_api_calculator_def)
  have cdp: "create_damping_param api (s2\<lparr>disp := Some h\<rparr>) = create_damping_param api s2"
    by (rule create_damping_param_parameters) simp
  show ?thesis
  proof (cases "create_damping_param api s2")
    case (Inl e)
    have "Calculator_calculate arg (if pr = [] then [''energy''] else pr) sc s =
          Calculator_calculate arg pr sc s"
      by (rule Calculator_calculate_props)
    with assms(1) ens cdp Inl show ?thesis by (simp add: calculate_def Let_def)
  next
    case (Inr dpar)
    with cdp have "create_damping_param api (s2\<lparr>disp := Some h\<rparr>) = Inr dpar" by simp
    from calculate_unfold [OF assms(1) ens this] Inr show ?thesis by simp
  qed
qed

lemma calculate_rebuild_disp:
  assumes "check_api_calculator api sc (Calculator_calculate arg pr sc s) = (Inr u2, s2)"
      and "disp s2 = None"
      and "create_api_calculator api s2 = Inr h"
  shows "disp (snd (calculate api arg pr sc s)) = Some h"
  unfolding calculate_rebuild [OF assms]
  by (simp add: store_results_disp split: sum.splits)

text \<open>
  C3. The claim is made for every list of changed inputs. It holds for its first half: a
  list with an entry other than \<open>positions\<close> and \<open>cell\<close> makes
  \<open>_check_api_calculator\<close> discard the model. The second half needs more than the
  claim says. \<open>list.remove\<close> deletes one occurrence, so a list that repeats
  \<open>positions\<close> or \<open>cell\<close> does not count as a change of positions and cell only;
  and the model is kept only if the update of the engine returns. As amended: for a
  non-empty list that holds \<open>positions\<close> and \<open>cell\<close> at most once each and nothing
  else, a calculator that holds a model and a structure keeps the model, updated by
  the engine with the current positions and cell in Bohr, whenever that update returns.
\<close>

theorem check_api_calculator_cases:
  "((\<exists>x \<in> set sc. x \<noteq> ''positions'' \<and> x \<noteq> ''cell'') \<longrightarrow>
      check_api_calculator api sc s = (Inr (), s\<lparr>disp := None\<rparr>)) \<and>
   (sc \<noteq> [] \<and> distinct sc \<and> set sc \<subseteq> {''positions'', ''cell''} \<and>
    disp s = Some h \<and> atoms s = Some a \<and>
    update api h (map (vec_map (\<lambda>x. x / Bohr api)) (positions a))
      (mat_map (\<lambda>x. x / Bohr api) (cell a)) = Inr h' \<longrightarrow>
      check_api_calculator api sc s = (Inr (), s\<lparr>disp := Some h'\<rparr>))"
proof (intro conjI impI)
  assume "\<exists>x \<in> set sc. x \<noteq> ''positions'' \<and> x \<noteq> ''cell''"
  then show "check_api_calculator api sc s = (Inr (), s\<lparr>disp := None\<rparr>)"
    using check_discards by blast
next
  assume h: "sc \<noteq> [] \<and> distinct sc \<and> set sc \<subseteq> {''positions'', ''cell''} \<and>
    disp s = Some h \<and> atoms s = Some a \<and>
    update api h (map (vec_map (\<lambda>x. x / Bohr api)) (positions a))
      (mat_map (\<lambda>x. x / Bohr api) (cell a)) = Inr h'"
  then have "remove1 ''cell'' (remove1 ''positions'' sc) = []"
    by (intro leftover_empty) simp_all
  with h show "check_api_calculator api sc s = (Inr (), s\<lparr>disp := Some h'\<rparr>)"
    by (simp add: check_updates)
qed

theorem check_api_calculator_cases_witness:
  "check_api_calculator test_api all_changes loaded = (Inr (), loaded\<lparr>disp := None\<rparr>) \<and>
   check_api_calculator test_api [''cell'', ''positions'']
     (loaded\<lparr>atoms := Some (box_atoms\<lparr>positions := [(1 / 2, 1, 3 / 2)]\<rparr>)\<rparr>) =
     (Inr (), loaded\<lparr>atoms := Some (box_atoms\<lparr>positions := [(1 / 2, 1, 3 / 2)]\<rparr>),
                     disp := Some ([(1, 2, 3)], ((4, 0, 0), (0, 4, 0), (0, 0, 4)))\<rparr>)"
  using check_api_calculator_cases
          [of all_changes test_api loaded]
        check_api_calculator_cases
          [of "[''cell'', ''positions'']" test_api
              "loaded\<lparr>atoms := Some (box_atoms\<lparr>positions := [(1 / 2, 1, 3 / 2)]\<rparr>)\<rparr>"
              "([(2, 2, 2)], ((4, 0, 0), (0, 4, 0), (0, 0, 4)))"
              "box_atoms\<lparr>positions := [(1 / 2, 1, 3 / 2)]\<rparr>"
              "([(1, 2, 3)], ((4, 0, 0), (0, 4, 0), (0, 0, 4)))"]
  by (simp add: test_defs vec_map_def mat_map_def)

text \<open>
  The two inputs at which the claim fails as stated: a list that names \<open>positions\<close>
  twice, and an update the engine refuses.
\<close>

theorem check_api_calculator_repeated_change:
  "disp loaded = Some ([(2, 2, 2)], ((4, 0, 0), (0, 4, 0), (0, 0, 4))) \<and>
   check_api_calculator test_api [''positions'', ''positions''] loaded =
     (Inr (), loaded\<lparr>disp := None\<rparr>) \<and>
   check_api_calculator test_api [''positions''] (loaded\<lparr>atoms := Some pair_atoms\<rparr>) =
     (Inr (), loaded\<lparr>atoms := Some pair_atoms, disp := None\<rparr>)"
  by (simp add: check_api_calculator_def Let_def test_defs vec_map_def mat_map_def)

text \<open>
  C4. When the update of the cached model raises \<open>RuntimeError\<close>,
  \<open>_check_api_calculator\<close> returns normally and has discarded the model, and the
  \<open>calculate\<close> call it belongs to goes on to construct a new model for the current
  structure. If the constructor fails, the call fails with its error and holds no model.
  If the constructor returns a model, the calculator holds that model when the call ends,
  however it ends, and the call continues as it does after any construction: the damping
  parameter, the evaluation on the new model, the results.
\<close>

theorem update_failure_falls_back:
  assumes "sc \<noteq> []" and "remove1 ''cell'' (remove1 ''positions'' sc) = []"
      and "s1 = Calculator_calculate arg pr sc s"
      and "disp s1 = Some h" and "atoms s1 = Some a"
      and "update api h (map (vec_map (\<lambda>x. x / Bohr api)) (positions a))
             (mat_map (\<lambda>x. x / Bohr api) (cell a)) = Inl e"
      and "is_RuntimeError e"
  shows "check_api_calculator api sc s1 = (Inr (), s1\<lparr>disp := None\<rparr>) \<and>
         (\<forall>e'. create_api_calculator api s1 = Inl e' \<longrightarrow>
                calculate api arg pr sc s = (Inl e', s1\<lparr>disp := None\<rparr>)) \<and>
         (\<forall>h'. create_api_calculator api s1 = Inr h' \<longrightarrow>
                disp (snd (calculate api arg pr sc s)) = Some h' \<and>
                calculate api arg pr sc s =
                  (case create_damping_param api s1 of
                     Inl e' \<Rightarrow> (Inl e', s1\<lparr>disp := Some h'\<rparr>)
                   | Inr dpar \<Rightarrow>
                       (case get_dispersion api h' dpar of
                          Inl e' \<Rightarrow>
                            (Inl (if is_RuntimeError e' then CalculationFailed else e'),
                             s1\<lparr>disp := Some h'\<rparr>)
                        | Inr res \<Rightarrow> store_results api res (s1\<lparr>disp := Some h'\<rparr>))))"
proof -
  from assms have chk: "check_api_calculator api sc s1 = (Inr (), s1\<lparr>disp := None\<rparr>)"
    by (simp add: check_updates)
  with assms(3)
  have chk': "check_api_calculator api sc (Calculator_calculate arg pr sc s) =
                (Inr (), s1\<lparr>disp := None\<rparr>)"
    by simp
  have d: "disp (s1\<lparr>disp := None\<rparr>) = None" by simp
  have cr: "create_api_calculator api (s1\<lparr>disp := None\<rparr>) = create_api_calculator api s1"
    by (rule create_api_calculator_atoms) simp
  have cdp: "create_damping_param api (s1\<lparr>disp := None\<rparr>) = create_damping_param api s1"
    by (rule create_damping_param_parameters) simp
  have fails: "calculate api arg pr sc s = (Inl e', s1\<lparr>disp := None\<rparr>)"
    if "create_api_calculator api s1 = Inl e'" for e'
    using calculate_rebuild_fails [OF chk' d] cr that by simp
  have builds: "disp (snd (calculate api arg pr sc s)) = Some h' \<and>
                calculate api arg pr sc s =
                  (case create_damping_param api s1 of
                     Inl e' \<Rightarrow> (Inl e', s1\<lparr>disp := Some h'\<rparr>)
                   | Inr dpar \<Rightarrow>
                       (case get_dispersion api h' dpar of
                          Inl e' \<Rightarrow>
                            (Inl (if is_RuntimeError e' then CalculationFailed else e'),
                             s1\<lparr>disp := Some h'\<rparr>)
                        | Inr res \<Rightarrow> store_results api res (s1\<lparr>disp := Some h'\<rparr>)))"
    if "create_api_calculator api s1 = Inr h'" for h'
  proof -
    from that cr have c: "create_api_calculator api (s1\<lparr>disp := None\<rparr>) = Inr h'" by simp
    have u: "s1\<lparr>disp := None, disp := Some h'\<rparr> = s1\<lparr>disp := Some h'\<rparr>" by simp
    from calculate_rebuild_disp [OF chk' d c] calculate_rebuild [OF chk' d c, unfolded u cdp]
    show ?thesis by (rule conjI)
  qed
  from chk fails builds show ?thesis by blast
qed

theorem update_failure_falls_back_witness:
  "check_api_calculator test_api [''positions''] (loaded\<lparr>atoms := Some pair_atoms\<rparr>) =
     (Inr (), loaded\<lparr>atoms := Some pair_atoms, disp := None\<rparr>) \<and>
   create_api_calculator test_api (loaded\<lparr>atoms := Some pair_atoms\<rparr>) =
     Inr ([(2, 2, 2), (1, 1, 1)], ((4, 0, 0), (0, 4, 0), (0, 0, 4))) \<and>
   fst (calculate test_api (Some pair_atoms) [] [''positions''] loaded) = Inr () \<and>
   disp (snd (calculate test_api (Some pair_atoms) [] [''positions''] loaded)) =
     Some ([(2, 2, 2), (1, 1, 1)], ((4, 0, 0), (0, 4, 0), (0, 0, 4))) \<and>
   calculate test_api (Some pair_atoms) [] [''positions'']
     (loaded\<lparr>parameters := (parameters loaded)\<lparr>damping := None\<rparr>\<rparr>) =
     (Inl KeyError,
      loaded\<lparr>parameters := (parameters loaded)\<lparr>damping := None\<rparr>,
             atoms := Some pair_atoms,
             disp := Some ([(2, 2, 2), (1, 1, 1)], ((4, 0, 0), (0, 4, 0), (0, 0, 4)))\<rparr>)"
  using update_failure_falls_back
          [of "[''positions'']" "loaded\<lparr>atoms := Some pair_atoms\<rparr>" "Some pair_atoms" "[]" loaded
              "([(2, 2, 2)], ((4, 0, 0), (0, 4, 0), (0, 0, 4)))" pair_atoms test_api RuntimeError]
        update_failure_falls_back
          [of "[''positions'']"
              "loaded\<lparr>parameters := (parameters loaded)\<lparr>damping := None\<rparr>,
                      atoms := Some pair_atoms\<rparr>"
              "Some pair_atoms" "[]"
              "loaded\<lparr>parameters := (parameters loaded)\<lparr>damping := None\<rparr>\<rparr>"
              "([(2, 2, 2)], ((4, 0, 0), (0, 4, 0), (0, 0, 4)))" pair_atoms test_api RuntimeError]
  by (simp add: run_defs test_defs)

subsection \<open>The results of a calculation\<close>

lemma box_run:
  "calculate test_api (Some box_atoms) [] all_changes fresh = (Inr (), box_done)"
  by (simp add: run_defs test_defs box_done_def)

lemma free_run:
  "calculate test_api (Some free_atoms) [] all_changes fresh = (Inr (), free_done)"
  by (simp add: run_defs test_defs free_done_def)

text \<open>
  C8. After a successful calculation the stored forces are the gradient of the engine,
  entry by entry, multiplied by Hartree, divided by Bohr and negated. The source negates
  first, \<open>-gradient * Hartree / Bohr\<close>; the two agree.
\<close>

theorem forces_negated_gradient:
  assumes "calculate api arg pr sc s = (Inr u, s')"
  shows "\<exists>h dpar res.
           disp s' = Some h \<and> create_damping_param api s' = Inr dpar \<and>
           get_dispersion api h dpar = Inr res \<and>
           results s' ''forces'' =
             Some (Vecs (map (vec_map (\<lambda>g. - (g * Hartree api / Bohr api))) (gradient res)))"
proof -
  from calculate_returns [OF assms] obtain h dpar res where
    "disp s' = Some h" "create_damping_param api s' = Inr dpar"
    "get_dispersion api h dpar = Inr res"
    "results s' ''forces'' =
       Some (Vecs (map (vec_map (\<lambda>g. - g * Hartree api / Bohr api)) (gradient res)))"
    by (elim exE conjE) (rule that; assumption)
  then show ?thesis by auto
qed

theorem forces_negated_gradient_witness:
  "calculate test_api (Some free_atoms) [] all_changes fresh = (Inr (), free_done) \<and>
   results free_done ''forces'' = Some (Vecs [(- 54, - 108, - 162)]) \<and>
   (\<exists>h dpar res.
      disp free_done = Some h \<and> create_damping_param test_api free_done = Inr dpar \<and>
      get_dispersion test_api h dpar = Inr res \<and>
      results free_done ''forces'' =
        Some (Vecs (map (vec_map (\<lambda>g. - (g * Hartree test_api / Bohr test_api))) (gradient res))))"
  using forces_negated_gradient [OF free_run] by (simp add: free_run free_done_def)

text \<open>
  C5. After a successful calculation on a structure with a periodic direction the stored
  stress is the virial of the engine, each entry multiplied by Hartree and divided by the
  cell volume, read row by row at the indices 0, 4, 8, 5, 2, 1: the entries xx, yy, zz, yz,
  xz, xy.
\<close>

theorem stress_voigt_order:
  assumes "calculate api arg pr sc s = (Inr u, s')"
      and "atoms s' = Some a" and "pbc_any (pbc a)"
  shows "\<exists>h dpar res vol.
           disp s' = Some h \<and> create_damping_param api s' = Inr dpar \<and>
           get_dispersion api h dpar = Inr res \<and> get_volume api a = Inr vol \<and>
           results s' ''stress'' =
             Some (Arr (flat_take (mat_map (\<lambda>x. x * Hartree api / vol) (virial res))
                          [0, 4, 8, 5, 2, 1])) \<and>
           (\<forall>xx xy xz yx yy yz zx zy zz.
              virial res = ((xx, xy, xz), (yx, yy, yz), (zx, zy, zz)) \<longrightarrow>
              results s' ''stress'' =
                Some (Arr [xx * Hartree api / vol, yy * Hartree api / vol,
                           zz * Hartree api / vol, yz * Hartree api / vol,
                           xz * Hartree api / vol, xy * Hartree api / vol]))"
proof -
  from calculate_returns [OF assms(1)]
  obtain a' h dpar res where
    a': "atoms s' = Some a'" and
    r0: "disp s' = Some h" "create_damping_param api s' = Inr dpar"
       "get_dispersion api h dpar = Inr res"
       "if pbc_any (pbc a')
        then \<exists>vol. get_volume api a' = Inr vol \<and>
               results s' ''stress'' =
                 Some (Arr (flat_take (mat_map (\<lambda>x. x * Hartree api / vol) (virial res))
                              [0, 4, 8, 5, 2, 1]))
        else results s' ''stress'' = results s ''stress''"
    by (elim exE conjE) (rule that; assumption)
  from a' assms(2) have "a' = a" by simp
  note r = r0 [unfolded this]
  from r(4) assms(3) obtain vol where
    v: "get_volume api a = Inr vol"
       "results s' ''stress'' =
          Some (Arr (flat_take (mat_map (\<lambda>x. x * Hartree api / vol) (virial res))
                       [0, 4, 8, 5, 2, 1]))"
    by auto
  have "flat_take (mat_map (\<lambda>x. x * Hartree api / vol) (virial res)) [0, 4, 8, 5, 2, 1] =
          [xx * Hartree api / vol, yy * Hartree api / vol, zz * Hartree api / vol,
           yz * Hartree api / vol, xz * Hartree api / vol, xy * Hartree api / vol]"
    if "virial res = ((xx, xy, xz), (yx, yy, yz), (zx, zy, zz))"
    for xx xy xz yx yy yz zx zy zz
    using that by (simp add: flat_take_def flat_def mat_map_def vec_map_def)
  with r(1-3) v show ?thesis by auto
qed

theorem stress_voigt_order_witness:
  "calculate test_api (Some box_atoms) [] all_changes fresh = (Inr (), box_done) \<and>
   atoms box_done = Some box_atoms \<and> pbc_any (pbc box_atoms) \<and>
   results box_done ''stress'' = Some (Arr [27 / 8, 135 / 8, 243 / 8, 81 / 4, 81 / 8, 27 / 4]) \<and>
   (\<exists>h dpar res vol.
      disp box_done = Some h \<and> create_damping_param test_api box_done = Inr dpar \<and>
      get_dispersion test_api h dpar = Inr res \<and> get_volume test_api box_atoms = Inr vol \<and>
      results box_done ''stress'' =
        Some (Arr (flat_take (mat_map (\<lambda>x. x * Hartree test_api / vol) (virial res))
                     [0, 4, 8, 5, 2, 1])))"
proof -
  have a: "atoms box_done = Some box_atoms" by (simp add: box_done_def)
  have p: "pbc_any (pbc box_atoms)" by (simp add: pbc_any_def box_atoms_def)
  from stress_voigt_order [OF box_run a p] have
    "\<exists>h dpar res vol.
      disp box_done = Some h \<and> create_damping_param test_api box_done = Inr dpar \<and>
      get_dispersion test_api h dpar = Inr res \<and> get_volume test_api box_atoms = Inr vol \<and>
      results box_done ''stress'' =
        Some (Arr (flat_take (mat_map (\<lambda>x. x * Hartree test_api / vol) (virial res))
                     [0, 4, 8, 5, 2, 1]))"
    by blast
  with a p box_run show ?thesis by (simp add: box_done_def)
qed

text \<open>
  C7. The claim is that after a successful calculation the key \<open>stress\<close> is in the
  results exactly when the structure has a periodic direction. \<open>calculate\<close> assigns the
  key exactly then, and it assigns \<open>energy\<close>, \<open>free_energy\<close> and \<open>forces\<close> always;
  but it removes nothing, and only \<open>reset\<close> empties the results. As amended: after a
  successful calculation \<open>stress\<close> is in the results exactly when the structure has a
  periodic direction or the key was there before the call, and without a periodic
  direction the entry is what it was before.
\<close>

theorem stress_written_iff_periodic:
  assumes "calculate api arg pr sc s = (Inr u, s')" and "atoms s' = Some a"
  shows "(''stress'' \<in> dom (results s') \<longleftrightarrow>
            pbc_any (pbc a) \<or> ''stress'' \<in> dom (results s)) \<and>
         (\<not> pbc_any (pbc a) \<longrightarrow> results s' ''stress'' = results s ''stress'') \<and>
         {''energy'', ''free_energy'', ''forces''} \<subseteq> dom (results s')"
proof -
  from calculate_returns [OF assms(1)]
  obtain a' and res :: dispersion_result where
    a': "atoms s' = Some a'" and
    r0: "results s' ''energy'' = Some (Scalar (energy res * Hartree api))"
       "results s' ''free_energy'' = Some (Scalar (energy res * Hartree api))"
       "results s' ''forces'' =
          Some (Vecs (map (vec_map (\<lambda>g. - g * Hartree api / Bohr api)) (gradient res)))"
       "if pbc_any (pbc a')
        then \<exists>vol. get_volume api a' = Inr vol \<and>
               results s' ''stress'' =
                 Some (Arr (flat_take (mat_map (\<lambda>x. x * Hartree api / vol) (virial res))
                              [0, 4, 8, 5, 2, 1]))
        else results s' ''stress'' = results s ''stress''"
    by (elim exE conjE) (rule that; assumption)
  from a' assms(2) have "a' = a" by simp
  note r = r0 [unfolded this]
  show ?thesis
  proof (cases "pbc_any (pbc a)")
    case True
    with r show ?thesis by auto
  next
    case False
    with r show ?thesis by (auto simp: dom_def)
  qed
qed

theorem stress_written_iff_periodic_witness:
  "calculate test_api (Some free_atoms) [] all_changes fresh = (Inr (), free_done) \<and>
   atoms free_done = Some free_atoms \<and> ''stress'' \<notin> dom (results free_done) \<and>
   calculate test_api (Some box_atoms) [] all_changes fresh = (Inr (), box_done) \<and>
   atoms box_done = Some box_atoms \<and> ''stress'' \<in> dom (results box_done) \<and>
   {''energy'', ''free_energy'', ''forces''} \<subseteq> dom (results free_done)"
proof -
  have f: "atoms free_done = Some free_atoms" by (simp add: free_done_def)
  have b: "atoms box_done = Some box_atoms" by (simp add: box_done_def)
  have "\<not> pbc_any (pbc free_atoms)" "pbc_any (pbc box_atoms)" "''stress'' \<notin> dom (results fresh)"
    by (simp_all add: pbc_any_def free_atoms_def box_atoms_def fresh_def)
  with stress_written_iff_periodic [OF free_run f] stress_written_iff_periodic [OF box_run b]
       f b free_run box_run
  show ?thesis by simp
qed

text \<open>
  The input at which the claim fails as stated: \<open>calculate\<close> called on the box and then,
  with no \<open>reset\<close> between, on the free atom.
\<close>

theorem stale_stress_without_reset:
  "calculate test_api (Some box_atoms) [] all_changes fresh = (Inr (), box_done) \<and>
   calculate test_api (Some free_atoms) [] all_changes box_done =
     (Inr (), box_done\<lparr>atoms := Some free_atoms\<rparr>) \<and>
   \<not> pbc_any (pbc free_atoms) \<and>
   results (box_done\<lparr>atoms := Some free_atoms\<rparr>) ''stress'' =
     Some (Arr [27 / 8, 135 / 8, 243 / 8, 81 / 4, 81 / 8, 27 / 4])"
proof -
  have "calculate test_api (Some free_atoms) [] all_changes box_done =
          (Inr (), box_done\<lparr>atoms := Some free_atoms\<rparr>)"
    by (simp add: run_defs test_defs box_done_def fun_upd_twist)
  then show ?thesis
    by (simp add: box_run) (simp add: box_done_def pbc_any_def free_atoms_def)
qed

text \<open>
  C9. When the model and the damping parameter have been obtained and
  \<open>get_dispersion\<close> raises \<open>RuntimeError\<close>, \<open>calculate\<close> raises
  \<open>CalculationFailed\<close> and the results are those from before the call.
\<close>

theorem dispersion_failure_is_atomic:
  assumes "check_api_calculator api sc (Calculator_calculate arg pr sc s) = (Inr u2, s2)"
      and "ensure_api_calculator api s2 = (Inr h, s3)"
      and "create_damping_param api s3 = Inr dpar"
      and "get_dispersion api h dpar = Inl e"
      and "is_RuntimeError e"
  shows "calculate api arg pr sc s = (Inl CalculationFailed, s3) \<and> results s3 = results s"
proof -
  from calculate_unfold [OF assms(1-3)] assms(4,5)
  have "calculate api arg pr sc s = (Inl CalculationFailed, s3)" by simp
  moreover from check_frame [OF assms(1)] ensure_frame [OF assms(2)]
  have "results s3 = results s" by (simp add: Calculator_calculate_frame)
  ultimately show ?thesis by simp
qed

theorem dispersion_failure_is_atomic_witness:
  "calculate test_api None [] [''positions'']
     (loaded\<lparr>parameters := (parameters loaded)\<lparr>damping := Some ''d3op''\<rparr>\<rparr>) =
     (Inl CalculationFailed, loaded\<lparr>parameters := (parameters loaded)\<lparr>damping := Some ''d3op''\<rparr>\<rparr>) \<and>
   results (loaded\<lparr>parameters := (parameters loaded)\<lparr>damping := Some ''d3op''\<rparr>\<rparr>) = Map.empty"
proof -
  let ?s = "loaded\<lparr>parameters := (parameters loaded)\<lparr>damping := Some ''d3op''\<rparr>\<rparr>"
  let ?h = "([(2, 2, 2)], ((4, 0, 0), (0, 4, 0), (0, 0, 4)))"
  have 1: "check_api_calculator test_api [''positions''] (Calculator_calculate None [] [''positions''] ?s) =
             (Inr (), ?s)"
    by (simp add: run_defs test_defs)
  have 2: "ensure_api_calculator test_api ?s = (Inr ?h, ?s)"
    by (simp add: ensure_api_calculator_def test_defs)
  have 3: "create_damping_param test_api ?s = Inr (OptimizedPowerDampingParam, [(''method'', Str ''pbe'')])"
    by (simp add: create_damping_param_def damping_param_getitem_def damping_param_def test_defs)
  have 4: "get_dispersion test_api ?h (OptimizedPowerDampingParam, [(''method'', Str ''pbe'')]) =
             Inl RuntimeError"
    by (simp add: test_api_def)
  from dispersion_failure_is_atomic [OF 1 2 3 4] show ?thesis
    by (simp add: loaded_def fresh_def)
qed

subsection \<open>Resetting the calculator\<close>

lemma reset_disp:
  "disp (reset s) = (if cache_api (parameters s) then disp s else None)"
  by (simp add: reset_def Calculator_reset_def Let_def)

lemma reset_parameters: "parameters (reset s) = parameters s"
  by (simp add: reset_def Calculator_reset_def Let_def)

lemma Calculator_calculate_None: "disp s = None \<Longrightarrow> disp (Calculator_calculate arg pr sc s) = None"
  by (simp add: Calculator_calculate_frame)

lemma nocache_run:
  "calculate test_api (Some box_atoms) [] all_changes nocache =
     (Inr (), box_done\<lparr>parameters := parameters nocache\<rparr>)"
  by (simp add: run_defs test_defs box_done_def)

text \<open>
  C2. The claim is that with \<open>cache_api\<close> disabled the model is discarded at the end of
  every call of \<open>calculate\<close>. The method that discards it is \<open>reset\<close>, and
  \<open>calculate\<close> does not call it: a successful \<open>calculate\<close> ends with the model it used
  in \<open>_disp\<close>. As amended: with \<open>cache_api\<close> disabled, \<open>reset\<close> leaves no model
  whatever the state was, so a \<open>calculate\<close> that follows a \<open>reset\<close> calls the
  constructor for the structure it is given: it fails with the error of the constructor, or
  it holds the new model when it ends, however it ends, and evaluates on that model. And
  after every successful \<open>calculate\<close> the calculator holds the model on which the
  engine was evaluated.
\<close>

theorem reset_discards_without_cache:
  assumes "\<not> cache_api (parameters s)"
  shows "disp (reset s) = None \<and>
         (\<forall>e. create_api_calculator api (Calculator_calculate arg pr sc (reset s)) = Inl e \<longrightarrow>
              calculate api arg pr sc (reset s) =
                (Inl e, Calculator_calculate arg pr sc (reset s))) \<and>
         (\<forall>h. create_api_calculator api (Calculator_calculate arg pr sc (reset s)) = Inr h \<longrightarrow>
              disp (snd (calculate api arg pr sc (reset s))) = Some h \<and>
              calculate api arg pr sc (reset s) =
                (case create_damping_param api s of
                   Inl e \<Rightarrow> (Inl e, (Calculator_calculate arg pr sc (reset s))\<lparr>disp := Some h\<rparr>)
                 | Inr dpar \<Rightarrow>
                     (case get_dispersion api h dpar of
                        Inl e \<Rightarrow>
                          (Inl (if is_RuntimeError e then CalculationFailed else e),
                           (Calculator_calculate arg pr sc (reset s))\<lparr>disp := Some h\<rparr>)
                      | Inr res \<Rightarrow>
                          store_results api res
                            ((Calculator_calculate arg pr sc (reset s))\<lparr>disp := Some h\<rparr>)))) \<and>
         (\<forall>u s'. calculate api arg pr sc s = (Inr u, s') \<longrightarrow>
              (\<exists>u2 s2 h dpar res.
                 check_api_calculator api sc (Calculator_calculate arg pr sc s) = (Inr u2, s2) \<and>
                 ensure_api_calculator api s2 = (Inr h, s2\<lparr>disp := Some h\<rparr>) \<and>
                 create_damping_param api s2 = Inr dpar \<and>
                 get_dispersion api h dpar = Inr res \<and>
                 store_results api res (s2\<lparr>disp := Some h\<rparr>) = (Inr u, s') \<and>
                 disp s' = Some h))"
proof -
  let ?s1 = "Calculator_calculate arg pr sc (reset s)"
  from assms have d: "disp (reset s) = None" by (simp add: reset_disp)
  then have d1: "disp ?s1 = None" by (rule Calculator_calculate_None)
  then have chk: "check_api_calculator api sc ?s1 = (Inr (), ?s1)"
    by (rule check_keeps_None)
  have "parameters ?s1 = parameters s"
    by (simp add: Calculator_calculate_frame reset_parameters)
  then have cdp: "create_damping_param api ?s1 = create_damping_param api s"
    by (rule create_damping_param_parameters)
  have fails: "calculate api arg pr sc (reset s) = (Inl e, ?s1)"
    if "create_api_calculator api ?s1 = Inl e" for e
    using chk d1 that by (rule calculate_rebuild_fails)
  have builds: "disp (snd (calculate api arg pr sc (reset s))) = Some h \<and>
              calculate api arg pr sc (reset s) =
                (case create_damping_param api s of
                   Inl e \<Rightarrow> (Inl e, ?s1\<lparr>disp := Some h\<rparr>)
                 | Inr dpar \<Rightarrow>
                     (case get_dispersion api h dpar of
                        Inl e \<Rightarrow>
                          (Inl (if is_RuntimeError e then CalculationFailed else e),
                           ?s1\<lparr>disp := Some h\<rparr>)
                      | Inr res \<Rightarrow> store_results api res (?s1\<lparr>disp := Some h\<rparr>)))"
    if c: "create_api_calculator api ?s1 = Inr h" for h
    using calculate_rebuild_disp [OF chk d1 c] calculate_rebuild [OF chk d1 c, unfolded cdp]
    by (rule conjI)
  have used: "\<exists>u2 s2 h dpar res.
                 check_api_calculator api sc (Calculator_calculate arg pr sc s) = (Inr u2, s2) \<and>
                 ensure_api_calculator api s2 = (Inr h, s2\<lparr>disp := Some h\<rparr>) \<and>
                 create_damping_param api s2 = Inr dpar \<and>
                 get_dispersion api h dpar = Inr res \<and>
                 store_results api res (s2\<lparr>disp := Some h\<rparr>) = (Inr u, s') \<and>
                 disp s' = Some h"
    if run: "calculate api arg pr sc s = (Inr u, s')" for u s'
  proof -
    from calculate_stages [OF run] obtain u2 s2 h dpar res where
      st: "check_api_calculator api sc (Calculator_calculate arg pr sc s) = (Inr u2, s2)"
          "ensure_api_calculator api s2 = (Inr h, s2\<lparr>disp := Some h\<rparr>)"
          "create_damping_param api s2 = Inr dpar"
          "get_dispersion api h dpar = Inr res"
          "store_results api res (s2\<lparr>disp := Some h\<rparr>) = (Inr u, s')"
      by (elim exE conjE) (rule that; assumption)
    from store_results_disp [of api res "s2\<lparr>disp := Some h\<rparr>"] st(5)
    have "disp s' = Some h" by simp
    with st show ?thesis by blast
  qed
  from d fails builds used show ?thesis by blast
qed

theorem reset_discards_without_cache_witness:
  "\<not> cache_api (parameters (box_done\<lparr>parameters := parameters nocache\<rparr>)) \<and>
   reset (box_done\<lparr>parameters := parameters nocache\<rparr>) = nocache \<and>
   disp nocache = None \<and>
   create_api_calculator test_api (nocache\<lparr>atoms := Some box_atoms\<rparr>) =
     Inr ([(2, 2, 2)], ((4, 0, 0), (0, 4, 0), (0, 0, 4))) \<and>
   calculate test_api (Some box_atoms) [] all_changes nocache =
     (Inr (), box_done\<lparr>parameters := parameters nocache\<rparr>) \<and>
   disp (box_done\<lparr>parameters := parameters nocache\<rparr>) =
     Some ([(2, 2, 2)], ((4, 0, 0), (0, 4, 0), (0, 0, 4))) \<and>
   calculate test_api (Some (box_atoms\<lparr>numbers := [], positions := []\<rparr>)) [] all_changes nocache =
     (Inl InputError, nocache\<lparr>atoms := Some (box_atoms\<lparr>numbers := [], positions := []\<rparr>)\<rparr>) \<and>
   calculate test_api (Some box_atoms) [] all_changes
     (nocache\<lparr>parameters := (parameters nocache)\<lparr>damping := None\<rparr>\<rparr>) =
     (Inl KeyError,
      nocache\<lparr>parameters := (parameters nocache)\<lparr>damping := None\<rparr>,
              atoms := Some box_atoms,
              disp := Some ([(2, 2, 2)], ((4, 0, 0), (0, 4, 0), (0, 0, 4)))\<rparr>)"
proof -
  let ?s = "box_done\<lparr>parameters := parameters nocache\<rparr>"
  let ?n = "nocache\<lparr>parameters := (parameters nocache)\<lparr>damping := None\<rparr>\<rparr>"
  have nc: "\<not> cache_api (parameters ?s)" "\<not> cache_api (parameters ?n)"
    by (simp_all add: test_defs)
  have rs: "reset ?s = nocache" "reset ?n = ?n"
    by (simp_all add: reset_def Calculator_reset_def Let_def test_defs box_done_def)
  note a = reset_discards_without_cache [OF nc(1), of test_api "Some box_atoms" "[]" all_changes,
             unfolded rs]
  note b = reset_discards_without_cache [OF nc(1), of test_api
             "Some (box_atoms\<lparr>numbers := [], positions := []\<rparr>)" "[]" all_changes, unfolded rs]
  note c = reset_discards_without_cache [OF nc(2), of test_api "Some box_atoms" "[]" all_changes,
             unfolded rs]
  have cc: "Calculator_calculate (Some x) [] all_changes nocache = nocache\<lparr>atoms := Some x\<rparr>"
           "Calculator_calculate (Some x) [] all_changes ?n = ?n\<lparr>atoms := Some x\<rparr>" for x
    by (simp_all add: Calculator_calculate_def)
  have m: "create_api_calculator test_api (nocache\<lparr>atoms := Some box_atoms\<rparr>) =
             Inr ([(2, 2, 2)], ((4, 0, 0), (0, 4, 0), (0, 0, 4)))"
          "create_api_calculator test_api (?n\<lparr>atoms := Some box_atoms\<rparr>) =
             Inr ([(2, 2, 2)], ((4, 0, 0), (0, 4, 0), (0, 0, 4)))"
          "create_api_calculator test_api
             (nocache\<lparr>atoms := Some (box_atoms\<lparr>numbers := [], positions := []\<rparr>)\<rparr>) = Inl InputError"
    by (simp_all add: create_api_calculator_def test_defs vec_map_def mat_map_def)
  have k: "create_damping_param test_api ?n = Inl KeyError"
    by (simp add: create_damping_param_def damping_param_getitem_def test_defs)
  from a have 1: "disp nocache = None" by simp
  from b m(3) have 2: "calculate test_api (Some (box_atoms\<lparr>numbers := [], positions := []\<rparr>)) []
                    all_changes nocache =
                  (Inl InputError, nocache\<lparr>atoms := Some (box_atoms\<lparr>numbers := [], positions := []\<rparr>)\<rparr>)"
    by (simp add: cc)
  from c m(2) k have 3: "calculate test_api (Some box_atoms) [] all_changes ?n =
      (Inl KeyError, ?n\<lparr>atoms := Some box_atoms,
                       disp := Some ([(2, 2, 2)], ((4, 0, 0), (0, 4, 0), (0, 0, 4)))\<rparr>)"
    by (simp add: cc)
  from nc rs 1 m(1) nocache_run 2 3 show ?thesis
    by (simp add: box_done_def)
qed

text \<open>
  The input at which the claim fails as stated: the first calculation of a calculator
  created with \<open>cache_api=False\<close>.
\<close>

theorem calculate_keeps_model_without_cache:
  "\<not> cache_api (parameters nocache) \<and>
   calculate test_api (Some box_atoms) [] all_changes nocache =
     (Inr (), box_done\<lparr>parameters := parameters nocache\<rparr>) \<and>
   disp (box_done\<lparr>parameters := parameters nocache\<rparr>) =
     Some ([(2, 2, 2)], ((4, 0, 0), (0, 4, 0), (0, 0, 4)))"
  by (simp add: nocache_run) (simp add: test_defs box_done_def)

text \<open>
  C10. The claim is that for a calculator with \<open>cache_api\<close> enabled no \<open>reset\<close>, also
  not the one \<open>set\<close> triggers for any changed parameter, touches the model.
  \<open>reset\<close> itself does not. But \<open>set\<close> stores the new values before it calls
  \<open>reset\<close>, and \<open>cache_api\<close> is one of the parameters. As amended: with
  \<open>cache_api\<close> enabled \<open>reset\<close> leaves the model and the parameters as they are;
  \<open>set\<close> leaves the model as it is whenever \<open>cache_api\<close> is enabled after the call,
  and discards it when it has changed a parameter and \<open>cache_api\<close> is disabled after
  the call.
\<close>

theorem reset_keeps_model_with_cache:
  "(cache_api (parameters s) \<longrightarrow>
      disp (reset s) = disp s \<and> parameters (reset s) = parameters s) \<and>
   (cache_api (parameters (snd (set_parameters kws s))) \<longrightarrow>
      disp (snd (set_parameters kws s)) = disp s) \<and>
   (\<not> cache_api (parameters (snd (set_parameters kws s))) \<and> fst (set_parameters kws s) \<noteq> [] \<longrightarrow>
      disp (snd (set_parameters kws s)) = None)"
proof -
  obtain changed s1 where cs: "Calculator_set kws s = (changed, s1)"
    by (cases "Calculator_set kws s")
  with Calculator_set_disp [of kws s] have d1: "disp s1 = disp s" by simp
  from cs have sp: "set_parameters kws s = (if changed \<noteq> [] then (changed, reset s1) else (changed, s1))"
    by (simp add: set_parameters_def)
  show ?thesis
  proof (cases "changed = []")
    case True
    with sp d1 show ?thesis by (simp add: reset_disp reset_parameters)
  next
    case False
    with sp d1 show ?thesis by (simp add: reset_disp reset_parameters)
  qed
qed

theorem reset_keeps_model_with_cache_witness:
  "cache_api (parameters loaded) \<and> disp (reset loaded) = disp loaded \<and>
   fst (set_parameters [Kw_method (Some ''tpss'')] loaded) = [Kw_method (Some ''tpss'')] \<and>
   disp (snd (set_parameters [Kw_method (Some ''tpss'')] loaded)) =
     Some ([(2, 2, 2)], ((4, 0, 0), (0, 4, 0), (0, 0, 4))) \<and>
   disp (snd (set_parameters [Kw_cache_api False] loaded)) = None"
  using reset_keeps_model_with_cache [of loaded "[Kw_method (Some ''tpss'')]"]
        reset_keeps_model_with_cache [of loaded "[Kw_cache_api False]"]
  by (simp add: set_parameters_def reset_def Calculator_reset_def Let_def test_defs)

text \<open>
  The input at which the claim fails as stated: \<open>set(cache_api=False)\<close> on a calculator
  that caches its model.
\<close>

theorem set_cache_api_discards_model:
  "cache_api (parameters loaded) \<and>
   disp loaded = Some ([(2, 2, 2)], ((4, 0, 0), (0, 4, 0), (0, 0, 4))) \<and>
   fst (set_parameters [Kw_cache_api False] loaded) = [Kw_cache_api False] \<and>
   disp (snd (set_parameters [Kw_cache_api False] loaded)) = None"
  by (simp add: set_parameters_def reset_def Calculator_reset_def Let_def test_defs)

end
